theory Spec2Isabelle
  imports Main
begin

section \<open>Strings, runes and the Go standard library functions the program calls\<close>

text \<open>
  A Go string is a sequence of bytes: it is modelled as a \<open>string\<close> (a list of 8-bit
  characters). A rune is a Unicode code point, modelled as a natural number. A run-time
  panic of the program is a value of type \<open>panic\<close>, and a function that can panic
  returns \<open>panic + 'a\<close> with \<open>Inl\<close> for the panic.
\<close>

type_synonym rune = nat

datatype panic =
    IndexOutOfRange nat nat
  | StrangeReceiver string
  | ReadDirError string
  | NilPointerDereference

definition RuneError :: rune where
  "RuneError = 0xFFFD"

text \<open>
  \<open>utf8.DecodeRuneInString\<close>: the first rune of a string and its width in bytes. An
  ill-formed or truncated encoding gives \<open>(RuneError, 1)\<close>. The triple chosen from the
  first byte is the size of the encoding and the range accepted for the second byte
  (the tables \<open>first\<close> and \<open>acceptRanges\<close> of package \<open>unicode/utf8\<close>).
\<close>

definition firstByte :: "nat \<Rightarrow> nat \<times> nat \<times> nat" where
  "firstByte b0 =
     (if b0 < 0xE0 then (2, 0x80, 0xBF)
      else if b0 = 0xE0 then (3, 0xA0, 0xBF)
      else if b0 = 0xED then (3, 0x80, 0x9F)
      else if b0 < 0xF0 then (3, 0x80, 0xBF)
      else if b0 = 0xF0 then (4, 0x90, 0xBF)
      else if b0 = 0xF4 then (4, 0x80, 0x8F)
      else (4, 0x80, 0xBF))"

definition byteAt :: "string \<Rightarrow> nat \<Rightarrow> nat" where
  "byteAt s i = (if i < length s then of_char (s ! i) else 0)"

definition DecodeRuneInString :: "string \<Rightarrow> rune \<times> nat" where
  "DecodeRuneInString s =
     (if s = [] then (RuneError, 0)
      else
        let b0 = byteAt s 0 in
        if b0 < 0x80 then (b0, 1)
        else if b0 < 0xC2 \<or> 0xF4 < b0 then (RuneError, 1)
        else
          let (sz, lo, hi) = firstByte b0; b1 = byteAt s 1; b2 = byteAt s 2; b3 = byteAt s 3 in
          if length s < sz then (RuneError, 1)
          else if b1 < lo \<or> hi < b1 then (RuneError, 1)
          else if sz \<le> 2 then ((b0 mod 32) * 64 + b1 mod 64, 2)
          else if b2 < 0x80 \<or> 0xBF < b2 then (RuneError, 1)
          else if sz \<le> 3 then ((b0 mod 16) * 4096 + (b1 mod 64) * 64 + b2 mod 64, 3)
          else if b3 < 0x80 \<or> 0xBF < b3 then (RuneError, 1)
          else ((b0 mod 8) * 262144 + (b1 mod 64) * 4096 + (b2 mod 64) * 64 + b3 mod 64, 4))"

text \<open>
  The conversion \<open>[]rune(s)\<close>: the runes of a string, decoded one after the other. The
  width of a rune decoded from a non-empty string is at least 1; the \<open>max\<close> states it
  where the recursion needs it.
\<close>

function runes :: "string \<Rightarrow> rune list" where
  "runes s =
     (if s = [] then []
      else fst (DecodeRuneInString s) # runes (drop (max 1 (snd (DecodeRuneInString s))) s))"
  by pat_completeness auto
termination
  by (relation "measure length") auto

text \<open>\<open>strings.HasPrefix\<close>.\<close>

definition HasPrefix :: "string \<Rightarrow> string \<Rightarrow> bool" where
  "HasPrefix s p = (length p \<le> length s \<and> take (length p) s = p)"

text \<open>
  \<open>unicode.IsUpper\<close>. For a rune of Latin-1 the library reads a property table, whose
  upper case letters are \<open>A\<close> to \<open>Z\<close>, U+00C0 to U+00D6 and U+00D8 to U+00DE. For
  every other rune it searches the range table \<open>unicode.Upper\<close>, which is a
  parameter here: \<open>Upper r\<close> says that the table holds \<open>r\<close>.
\<close>

definition MaxLatin1 :: rune where
  "MaxLatin1 = 0xFF"

definition IsUpper :: "(rune \<Rightarrow> bool) \<Rightarrow> rune \<Rightarrow> bool" where
  "IsUpper Upper r =
     (if r \<le> MaxLatin1
      then (0x41 \<le> r \<and> r \<le> 0x5A) \<or> (0xC0 \<le> r \<and> r \<le> 0xD6) \<or> (0xD8 \<le> r \<and> r \<le> 0xDE)
      else Upper r)"

section \<open>The visibility classifier\<close>

text \<open>Indexing a slice of runes: out of range, the program panics.\<close>

definition runeAt :: "rune list \<Rightarrow> nat \<Rightarrow> panic + rune" where
  "runeAt rs i = (if i < length rs then Inr (rs ! i) else Inl (IndexOutOfRange i (length rs)))"

definition isUpper0 :: "(rune \<Rightarrow> bool) \<Rightarrow> string \<Rightarrow> panic + bool" where
  "isUpper0 Upper s =
     (if HasPrefix s ''*''
      then (case runeAt (runes s) 1 of Inl e \<Rightarrow> Inl e | Inr r \<Rightarrow> Inr (IsUpper Upper r))
      else (case runeAt (runes s) 0 of Inl e \<Rightarrow> Inl e | Inr r \<Rightarrow> Inr (IsUpper Upper r)))"

text \<open>
  The name with one leading pointer marker removed (\<open>strings.TrimPrefix s "*"\<close>): the
  text whose first character the classifier is said to read.
\<close>

definition stripStar :: "string \<Rightarrow> string" where
  "stripStar s = (if HasPrefix s ''*'' then drop 1 s else s)"

section \<open>Syntax trees\<close>

text \<open>
  The nodes of package \<open>go/ast\<close> that the program reads. An \<open>ast.Expr\<close> is an
  interface value: \<open>Nil\<close> is the nil interface. Source positions are left out, but for
  \<open>BadExpr\<close>, which has nothing else. A \<open>*ast.FieldList\<close> that may be nil is a
  \<open>field list option\<close>; the parameter list of a function type is never nil. The
  fields of a struct type, the methods of an interface type and the body of a function
  literal are left out: the program never reads them. The function type of a function
  literal is held by the literal itself.
\<close>

datatype token =
    tok_ADD | tok_SUB | tok_MUL | tok_QUO | tok_REM
  | tok_AND | tok_OR | tok_XOR | tok_SHL | tok_SHR | tok_AND_NOT
  | tok_LAND | tok_LOR | tok_ARROW
  | tok_EQL | tok_LSS | tok_GTR | tok_NOT | tok_NEQ | tok_LEQ | tok_GEQ | tok_TILDE
  | tok_IMPORT | tok_CONST | tok_TYPE | tok_VAR

datatype expr =
    Nil
  | BadExpr nat nat
  | Ident string
  | Ellipsis expr
  | BasicLit string
  | FuncLit "field list option" "field list" "field list option"
  | CompositeLit expr "expr list"
  | ParenExpr expr
  | SelectorExpr expr string
  | IndexExpr expr expr
  | IndexListExpr expr "expr list"
  | SliceExpr expr expr expr expr bool
  | TypeAssertExpr expr expr
  | CallExpr expr "expr list"
  | StarExpr expr
  | UnaryExpr token expr
  | BinaryExpr expr token expr
  | KeyValueExpr expr expr
  | ArrayType expr expr
  | StructType
  | FuncType "field list option" "field list" "field list option"
  | InterfaceType
  | MapType expr expr
  | ChanType nat expr
and field = Field (Names: "string list") (Type: expr)

text \<open>
  \<open>token.Token.String\<close> on the operators and keywords above (the table \<open>tokens\<close> of
  package \<open>go/token\<close>).
\<close>

fun token_String :: "token \<Rightarrow> string" where
  "token_String tok_ADD = ''+''"
| "token_String tok_SUB = ''-''"
| "token_String tok_MUL = ''*''"
| "token_String tok_QUO = ''/''"
| "token_String tok_REM = ''%''"
| "token_String tok_AND = ''&''"
| "token_String tok_OR = ''|''"
| "token_String tok_XOR = ''^''"
| "token_String tok_SHL = ''<<''"
| "token_String tok_SHR = ''>>''"
| "token_String tok_AND_NOT = ''&^''"
| "token_String tok_LAND = ''&&''"
| "token_String tok_LOR = ''||''"
| "token_String tok_ARROW = ''<-''"
| "token_String tok_EQL = ''==''"
| "token_String tok_LSS = ''<''"
| "token_String tok_GTR = ''>''"
| "token_String tok_NOT = ''!''"
| "token_String tok_NEQ = ''!=''"
| "token_String tok_LEQ = ''<=''"
| "token_String tok_GEQ = ''>=''"
| "token_String tok_TILDE = ''~''"
| "token_String tok_IMPORT = ''import''"
| "token_String tok_CONST = ''const''"
| "token_String tok_TYPE = ''type''"
| "token_String tok_VAR = ''var''"

text \<open>
  The verb \<open>%#v\<close> of package \<open>fmt\<close> prints the Go-syntax form of a value. The program
  applies it to an expression, to a field and to a field list; the printer is a
  parameter of the model, a function from such a node to its text.
\<close>

datatype node = NExpr expr | NField field | NFieldList "field list"

type_synonym goSyntax = "node \<Rightarrow> string"

text \<open>\<open>strings.Join\<close>.\<close>

fun strings_Join :: "string list \<Rightarrow> string \<Rightarrow> string" where
  "strings_Join [] sep = []"
| "strings_Join [x] sep = x"
| "strings_Join (x # y # ys) sep = x @ sep @ strings_Join (y # ys) sep"

section \<open>The syntax-to-signature renderer\<close>

text \<open>
  The inner loop of \<open>formatFields\<close>: every name of a field is followed by a space, and
  every name but the last by a comma before that space.
\<close>

fun formatNames :: "string list \<Rightarrow> string" where
  "formatNames [] = []"
| "formatNames (name # names) =
     name @ (if names \<noteq> [] then '','' else []) @ '' '' @ formatNames names"

fun formatType :: "goSyntax \<Rightarrow> expr \<Rightarrow> string"
  and formatTypes :: "goSyntax \<Rightarrow> expr list \<Rightarrow> string list"
  and formatFields :: "goSyntax \<Rightarrow> field list \<Rightarrow> string"
  and formatFuncResults :: "goSyntax \<Rightarrow> field list option \<Rightarrow> string"
where
  "formatType gs Nil = []"
| "formatType gs (Ident name) = name"
| "formatType gs (SelectorExpr x sel) = formatType gs x @ ''.'' @ sel"
| "formatType gs (StarExpr x) = ''*'' @ formatType gs x"
| "formatType gs (ArrayType len elt) = ''['' @ formatType gs len @ '']'' @ formatType gs elt"
| "formatType gs (Ellipsis elt) = ''...'' @ formatType gs elt"
| "formatType gs (FuncType tparams params results) =
     ''func('' @ formatFields gs params @ '')'' @ formatFuncResults gs results"
| "formatType gs (MapType k v) = ''map['' @ formatType gs k @ '']'' @ formatType gs v"
| "formatType gs (ChanType dir v) =
     (if dir = 1 then ''<-chan'' else if dir = 2 then ''chan<-'' else if dir = 3 then ''chan'' else [])
       @ '' '' @ formatType gs v"
| "formatType gs (BasicLit v) = v"
| "formatType gs StructType = ''struct{}''"
| "formatType gs InterfaceType = ''interface{}''"
| "formatType gs (UnaryExpr op x) = token_String op @ formatType gs x"
| "formatType gs (CompositeLit t elts) = formatType gs t @ ''{}''"
| "formatType gs (CallExpr f args) = formatType gs f @ ''()''"
| "formatType gs (BinaryExpr x op y) =
     formatType gs x @ '' '' @ token_String op @ '' '' @ formatType gs y"
| "formatType gs (FuncLit tparams params results) =
     ''func('' @ formatFields gs params @ '')'' @ formatFuncResults gs results"
| "formatType gs (IndexExpr x i) = formatType gs x @ ''['' @ formatType gs i @ '']''"
| "formatType gs (IndexListExpr x is) =
     formatType gs x @ ''['' @ strings_Join (formatTypes gs is) '', '' @ '']''"
| "formatType gs (ParenExpr x) = ''('' @ formatType gs x @ '')''"
| "formatType gs (SliceExpr x lo hi mx slice3) =
     formatType gs x @ ''[''
       @ (if lo \<noteq> Nil then formatType gs lo else [])
       @ '':''
       @ (if hi \<noteq> Nil then formatType gs hi else [])
       @ (if slice3 then '':'' else [])
       @ (if mx \<noteq> Nil then formatType gs mx else [])
       @ '']''"
| "formatType gs (TypeAssertExpr x t) = formatType gs x @ ''.('' @ formatType gs t @ '')''"
| "formatType gs (BadExpr from to) = ''unsupported type '' @ gs (NExpr (BadExpr from to))"
| "formatType gs (KeyValueExpr k v) = ''unsupported type '' @ gs (NExpr (KeyValueExpr k v))"
| "formatTypes gs [] = []"
| "formatTypes gs (e # es) = formatType gs e # formatTypes gs es"
| "formatFields gs [] = []"
| "formatFields gs (Field names t # fs) =
     formatNames names @ formatType gs t
       @ (if fs \<noteq> [] then '', '' else []) @ formatFields gs fs"
| "formatFuncResults gs None = []"
| "formatFuncResults gs (Some fields) =
     '' ''
       @ (if 1 < length fields \<or> (length fields = 1 \<and> 0 < length (Names (fields ! 0)))
          then ''('' else [])
       @ formatFields gs fields
       @ (if 1 < length fields \<or> (length fields = 1 \<and> 0 < length (Names (fields ! 0)))
          then '')'' else [])"

section \<open>The declaration formatter\<close>

text \<open>
  An \<open>ast.FuncDecl\<close> with the fields of its function type, an \<open>ast.Spec\<close>, an
  \<open>ast.Decl\<close> and an \<open>ast.File\<close>. An identifier stands for its name, which is also
  what the verb \<open>%s\<close> prints for it.
\<close>

record funcDecl =
  Recv :: "field list option"
  Name :: string
  TypeParams :: "field list option"
  Params :: "field list"
  Results :: "field list option"

datatype spec =
    ImportSpec
  | ValueSpec "string list" expr "expr list"
  | TypeSpec string expr

datatype decl =
    BadDecl
  | GenDecl token "spec list"
  | FuncDecl funcDecl

record astFile =
  PkgName :: string
  Decls :: "decl list"

definition newline :: string where
  "newline = [CHR 0x0A]"

text \<open>
  \<open>formatFuncDecl\<close>. The receiver part is either an early return (\<open>Inl\<close>, the text
  returned) or the text added to \<open>"func "\<close> (\<open>Inr\<close>).
\<close>

definition formatRecv :: "goSyntax \<Rightarrow> funcDecl \<Rightarrow> string + string" where
  "formatRecv gs decl =
     (case Recv decl of
        None \<Rightarrow> Inr []
      | Some list \<Rightarrow>
          if length list \<noteq> 1
          then Inl (''strange receiver for '' @ Name decl @ '': '' @ gs (NFieldList list))
          else
            let field = list ! 0 in
            if length (Names field) = 0 then Inl []
            else if length (Names field) \<noteq> 1
            then Inl (''strange receiver field for '' @ Name decl @ '': '' @ gs (NField field))
            else Inr (''('' @ Names field ! 0 @ '' '' @ formatType gs (Type field) @ '') ''))"

definition formatFuncDecl :: "goSyntax \<Rightarrow> funcDecl \<Rightarrow> string" where
  "formatFuncDecl gs decl =
     (case formatRecv gs decl of
        Inl early \<Rightarrow> early
      | Inr recv \<Rightarrow>
          ''func '' @ recv @ Name decl
            @ (case TypeParams decl of
                 None \<Rightarrow> []
               | Some tparams \<Rightarrow> ''['' @ formatFields gs tparams @ '']'')
            @ ''('' @ formatFields gs (Params decl) @ '')''
            @ formatFuncResults gs (Results decl))"

text \<open>\<open>exported\<close>. The conjunction \<open>&&\<close> does not evaluate its right side after a false left side.\<close>

definition exported :: "(rune \<Rightarrow> bool) \<Rightarrow> goSyntax \<Rightarrow> funcDecl \<Rightarrow> panic + bool" where
  "exported Upper gs decl =
     (case Recv decl of
        None \<Rightarrow> isUpper0 Upper (Name decl)
      | Some list \<Rightarrow>
          if length list \<noteq> 1
          then Inl (StrangeReceiver
                 (''strange receiver for '' @ Name decl @ '': '' @ gs (NFieldList list)))
          else
            let field = list ! 0 in
            (case isUpper0 Upper (formatType gs (Type field)) of
               Inl e \<Rightarrow> Inl e
             | Inr False \<Rightarrow> Inr False
             | Inr True \<Rightarrow> isUpper0 Upper (Name decl)))"

text \<open>
  \<open>formatGenDecl\<close>: the loop over the specs of a type declaration, the loop over the
  names of one value spec (with the index \<open>i\<close> of the name), and the loop over the specs
  of a var or const declaration. Each takes the slice \<open>res\<close> and returns it extended.
\<close>

fun typeSpecs :: "(rune \<Rightarrow> bool) \<Rightarrow> goSyntax \<Rightarrow> spec list \<Rightarrow> string list \<Rightarrow> panic + string list" where
  "typeSpecs Upper gs [] res = Inr res"
| "typeSpecs Upper gs (TypeSpec name t # specs) res =
     (case isUpper0 Upper name of
        Inl e \<Rightarrow> Inl e
      | Inr up \<Rightarrow>
          typeSpecs Upper gs specs
            (if up then res @ [''type '' @ name @ '' '' @ formatType gs t] else res))"
| "typeSpecs Upper gs (sp # specs) res = typeSpecs Upper gs specs res"

fun valueNames ::
  "(rune \<Rightarrow> bool) \<Rightarrow> goSyntax \<Rightarrow> string \<Rightarrow> string \<Rightarrow> expr list \<Rightarrow> nat \<Rightarrow> string list \<Rightarrow> string list
     \<Rightarrow> panic + string list" where
  "valueNames Upper gs key typ values i [] res = Inr res"
| "valueNames Upper gs key typ values i (name # names) res =
     (case isUpper0 Upper name of
        Inl e \<Rightarrow> Inl e
      | Inr up \<Rightarrow>
          valueNames Upper gs key typ values (Suc i) names
            (if up
             then res @ [key @ '' '' @ name @ '' '' @ typ
                    @ (if i < length values then ''= '' @ formatType gs (values ! i) else [])]
             else res))"

fun valueSpecs :: "(rune \<Rightarrow> bool) \<Rightarrow> goSyntax \<Rightarrow> string \<Rightarrow> spec list \<Rightarrow> string list \<Rightarrow> panic + string list" where
  "valueSpecs Upper gs key [] res = Inr res"
| "valueSpecs Upper gs key (ValueSpec names t values # specs) res =
     (let typ = formatType gs t;
          typ = (if typ \<noteq> [] then typ @ '' '' else typ)
      in case valueNames Upper gs key typ values 0 names res of
           Inl e \<Rightarrow> Inl e
         | Inr res' \<Rightarrow> valueSpecs Upper gs key specs res')"
| "valueSpecs Upper gs key (sp # specs) res = valueSpecs Upper gs key specs res"

definition formatGenDecl :: "(rune \<Rightarrow> bool) \<Rightarrow> goSyntax \<Rightarrow> token \<Rightarrow> spec list \<Rightarrow> panic + string" where
  "formatGenDecl Upper gs tok specs =
     (case
        (if tok = tok_TYPE then typeSpecs Upper gs specs []
         else if tok = tok_VAR \<or> tok = tok_CONST
         then valueSpecs Upper gs (if tok = tok_CONST then ''const'' else ''var'') specs []
         else Inr [])
      of Inl e \<Rightarrow> Inl e
       | Inr res \<Rightarrow> Inr (strings_Join res newline))"

section \<open>The file exporter\<close>

text \<open>\<open>filepath.Base\<close> (Unix): the last element of a path, trailing slashes removed.\<close>

definition filepath_Base :: "string \<Rightarrow> string" where
  "filepath_Base path =
     (if path = [] then ''.''
      else
        let p = rev (dropWhile (\<lambda>c. c = CHR ''/'') (rev path));
            b = rev (takeWhile (\<lambda>c. c \<noteq> CHR ''/'') (rev p))
        in if b = [] then ''/'' else b)"

text \<open>Standard output is the text written to it.\<close>

definition printFileName :: "string \<Rightarrow> string" where
  "printFileName path = ''// '' @ filepath_Base path @ '':'' @ newline"

fun printLines :: "string list \<Rightarrow> string" where
  "printLines [] = []"
| "printLines (line # lines) = line @ newline @ printLines lines"

text \<open>The loop of \<open>printGoFileExport\<close> over the declarations of the file.\<close>

fun collectDecls :: "(rune \<Rightarrow> bool) \<Rightarrow> goSyntax \<Rightarrow> decl list \<Rightarrow> string list \<Rightarrow> panic + string list" where
  "collectDecls Upper gs [] res = Inr res"
| "collectDecls Upper gs (FuncDecl d # decls) res =
     (case exported Upper gs d of
        Inl e \<Rightarrow> Inl e
      | Inr ex \<Rightarrow> collectDecls Upper gs decls (if ex then res @ [formatFuncDecl gs d] else res))"
| "collectDecls Upper gs (GenDecl tok specs # decls) res =
     (case formatGenDecl Upper gs tok specs of
        Inl e \<Rightarrow> Inl e
      | Inr s \<Rightarrow> collectDecls Upper gs decls (if s \<noteq> [] then res @ [s] else res))"
| "collectDecls Upper gs (BadDecl # decls) res = collectDecls Upper gs decls res"

definition printGoFileExport :: "(rune \<Rightarrow> bool) \<Rightarrow> goSyntax \<Rightarrow> string \<Rightarrow> astFile \<Rightarrow> panic + string" where
  "printGoFileExport Upper gs filepath f =
     (case collectDecls Upper gs (Decls f) [] of
        Inl e \<Rightarrow> Inl e
      | Inr res \<Rightarrow>
          Inr (if length res = 0 then []
               else printFileName filepath @ printLines res @ newline))"

section \<open>The package path resolver\<close>

text \<open>
  \<open>strings.Split\<close> with a separator of one byte, \<open>filepath.SplitList\<close>,
  \<open>filepath.Clean\<close> and \<open>filepath.Join\<close> on Unix, where \<open>os.PathSeparator\<close> is the
  slash and \<open>os.PathListSeparator\<close> the colon.
\<close>

definition os_PathSeparator :: char where
  "os_PathSeparator = CHR ''/''"

fun strings_Split :: "string \<Rightarrow> char \<Rightarrow> string list" where
  "strings_Split [] sep = [[]]"
| "strings_Split (c # cs) sep =
     (if c = sep then [] # strings_Split cs sep
      else (case strings_Split cs sep of
              [] \<Rightarrow> [[c]]
            | x # xs \<Rightarrow> (c # x) # xs))"

definition filepath_SplitList :: "string \<Rightarrow> string list" where
  "filepath_SplitList path = (if path = [] then [] else strings_Split path CHR '':'')"

definition cleanStep :: "bool \<Rightarrow> string list \<Rightarrow> string \<Rightarrow> string list" where
  "cleanStep rooted out elem =
     (if elem = [] \<or> elem = ''.'' then out
      else if elem = ''..''
      then (if out \<noteq> [] \<and> last out \<noteq> ''..'' then butlast out
            else if rooted then out
            else out @ [elem])
      else out @ [elem])"

definition filepath_Clean :: "string \<Rightarrow> string" where
  "filepath_Clean path =
     (if path = [] then ''.''
      else
        let rooted = (hd path = os_PathSeparator);
            body = strings_Join (foldl (cleanStep rooted) [] (strings_Split path os_PathSeparator)) ''/''
        in if rooted then ''/'' @ body
           else if body = [] then ''.''
           else body)"

definition filepath_Join :: "string list \<Rightarrow> string" where
  "filepath_Join elem =
     (case dropWhile (\<lambda>e. e = []) elem of
        [] \<Rightarrow> []
      | e # es \<Rightarrow> filepath_Clean (strings_Join (e # es) ''/''))"

text \<open>
  The environment read by \<open>goModCache\<close>: the variable \<open>GOMODCACHE\<close> and the \<open>GOPATH\<close> of
  \<open>build.Default\<close>.
\<close>

record env =
  GOMODCACHE :: string
  GOPATH :: string

definition goModCache :: "env \<Rightarrow> string" where
  "goModCache ev =
     (if GOMODCACHE ev \<noteq> [] then GOMODCACHE ev
      else
        let list = filepath_SplitList (GOPATH ev) in
        if length list = 0 \<or> list ! 0 = [] then []
        else filepath_Join [list ! 0, ''pkg/mod''])"

text \<open>
  The file system, as \<open>os.ReadDir\<close> sees it: the entries of a directory, sorted by
  name, or \<open>None\<close> when the directory cannot be read.
\<close>

datatype dirEntry = DirEntry (EntryName: string) (IsDir: bool)

type_synonym fileSystem = "string \<Rightarrow> dirEntry list option"

text \<open>
  The inner loop of \<open>searchPackagePathFromGoModCache\<close>: the first entry that is a
  directory named \<open>name\<close> or \<open>name@...\<close>; \<open>None\<close> when the loop ends without a match.
\<close>

fun firstMatch :: "string \<Rightarrow> dirEntry list \<Rightarrow> dirEntry option" where
  "firstMatch name [] = None"
| "firstMatch name (f # list) =
     (if IsDir f \<and> (EntryName f = name \<or> HasPrefix (EntryName f) (name @ ''@''))
      then Some f
      else firstMatch name list)"

text \<open>The outer loop, over the segments of the import path, from the directory \<open>pa\<close>.\<close>

fun searchLoop :: "fileSystem \<Rightarrow> string \<Rightarrow> string list \<Rightarrow> panic + string" where
  "searchLoop fs pa [] = Inr pa"
| "searchLoop fs pa (name # names) =
     (case fs pa of
        None \<Rightarrow> Inl (ReadDirError pa)
      | Some list \<Rightarrow>
          (case firstMatch name list of
             None \<Rightarrow> Inr []
           | Some f \<Rightarrow> searchLoop fs (filepath_Join [pa, EntryName f]) names))"

definition searchPackagePathFromGoModCache :: "env \<Rightarrow> fileSystem \<Rightarrow> string \<Rightarrow> panic + string" where
  "searchPackagePathFromGoModCache ev fs importPath =
     searchLoop fs (goModCache ev) (strings_Split importPath os_PathSeparator)"

section \<open>The renderer on syntax trees with nil pointers\<close>

text \<open>
  The datatype \<open>expr\<close> above has a node only where package \<open>go/ast\<close> documents a
  non-nil pointer, as in every tree built by \<open>go/parser\<close>. A Go value of type
  \<open>ast.Expr\<close> can hold more: the interface can hold a nil pointer of a node type
  (\<open>RNilPtr\<close>, with the kind of the node), and inside a node the identifier \<open>Sel\<close> of a
  selector, the function type of a function literal, the parameter list of a function
  type, a field of a field list and a name of a field are pointers that can be nil
  (\<open>None\<close>). The types below have these values, and \<open>formatTypeR\<close> is the renderer on
  them: reading through a nil pointer is the panic \<open>NilPointerDereference\<close>.
\<close>

datatype nodeKind =
    kBadExpr | kIdent | kEllipsis | kBasicLit | kFuncLit | kCompositeLit | kParenExpr
  | kSelectorExpr | kIndexExpr | kIndexListExpr | kSliceExpr | kTypeAssertExpr | kCallExpr
  | kStarExpr | kUnaryExpr | kBinaryExpr | kKeyValueExpr | kArrayType | kStructType
  | kFuncType | kInterfaceType | kMapType | kChanType

datatype rexpr =
    RNil
  | RNilPtr nodeKind
  | RBadExpr nat nat
  | RIdent string
  | REllipsis rexpr
  | RBasicLit string
  | RFuncLit "rfuncType option"
  | RCompositeLit rexpr "rexpr list"
  | RParenExpr rexpr
  | RSelectorExpr rexpr "string option"
  | RIndexExpr rexpr rexpr
  | RIndexListExpr rexpr "rexpr list"
  | RSliceExpr rexpr rexpr rexpr rexpr bool
  | RTypeAssertExpr rexpr rexpr
  | RCallExpr rexpr "rexpr list"
  | RStarExpr rexpr
  | RUnaryExpr token rexpr
  | RBinaryExpr rexpr token rexpr
  | RKeyValueExpr rexpr rexpr
  | RArrayType rexpr rexpr
  | RStructType
  | RFuncType rfuncType
  | RInterfaceType
  | RMapType rexpr rexpr
  | RChanType nat rexpr
and rfuncType =
    RFuncTypeOf "rfield option list option" "rfield option list option" "rfield option list option"
and rfield = RField "string option list" rexpr

text \<open>
  The text of two evaluations, one after the other: the first panic ends the
  evaluation.
\<close>

fun andThen :: "panic + string \<Rightarrow> panic + string \<Rightarrow> panic + string" where
  "andThen (Inl e) y = Inl e"
| "andThen (Inr a) (Inl e) = Inl e"
| "andThen (Inr a) (Inr b) = Inr (a @ b)"

text \<open>The inner loop of \<open>formatFields\<close>; \<open>name.Name\<close> reads through the pointer \<open>name\<close>.\<close>

fun formatNamesR :: "string option list \<Rightarrow> panic + string" where
  "formatNamesR [] = Inr []"
| "formatNamesR (None # names) = Inl NilPointerDereference"
| "formatNamesR (Some name # names) =
     andThen (Inr (name @ (if names \<noteq> [] then '','' else []) @ '' '')) (formatNamesR names)"

text \<open>
  The test \<open>needPar\<close> of \<open>formatFuncResults\<close>; \<open>fields.List[0].Names\<close> reads through
  the first field.
\<close>

definition needParR :: "rfield option list \<Rightarrow> panic + bool" where
  "needParR list =
     (if 1 < length list then Inr True
      else if length list = 1
      then (case list ! 0 of
              None \<Rightarrow> Inl NilPointerDereference
            | Some (RField names t) \<Rightarrow> Inr (0 < length names))
      else Inr False)"

text \<open>The text that joins the elements of a list with \<open>", "\<close>, when each has a text.\<close>

fun joinR :: "(panic + string) list \<Rightarrow> panic + string list" where
  "joinR [] = Inr []"
| "joinR (Inl e # xs) = Inl e"
| "joinR (Inr s # xs) = (case joinR xs of Inl e \<Rightarrow> Inl e | Inr ss \<Rightarrow> Inr (s # ss))"

function (sequential)
      formatTypeR :: "(rexpr \<Rightarrow> string) \<Rightarrow> rexpr \<Rightarrow> panic + string"
  and formatTypesR :: "(rexpr \<Rightarrow> string) \<Rightarrow> rexpr list \<Rightarrow> (panic + string) list"
  and formatFuncTypeR :: "(rexpr \<Rightarrow> string) \<Rightarrow> rfuncType \<Rightarrow> panic + string"
  and formatFieldListR :: "(rexpr \<Rightarrow> string) \<Rightarrow> rfield option list option \<Rightarrow> panic + string"
  and formatFieldsR :: "(rexpr \<Rightarrow> string) \<Rightarrow> rfield option list \<Rightarrow> panic + string"
  and formatFuncResultsR :: "(rexpr \<Rightarrow> string) \<Rightarrow> rfield option list option \<Rightarrow> panic + string"
where
  "formatTypeR g RNil = Inr []"
| "formatTypeR g (RNilPtr k) =
     (if k = kStructType then Inr ''struct{}''
      else if k = kInterfaceType then Inr ''interface{}''
      else if k = kBadExpr \<or> k = kKeyValueExpr then Inr (''unsupported type '' @ g (RNilPtr k))
      else Inl NilPointerDereference)"
| "formatTypeR g (RIdent name) = Inr name"
| "formatTypeR g (RSelectorExpr x sel) =
     andThen (formatTypeR g x)
       (case sel of None \<Rightarrow> Inl NilPointerDereference | Some name \<Rightarrow> Inr (''.'' @ name))"
| "formatTypeR g (RStarExpr x) = andThen (Inr ''*'') (formatTypeR g x)"
| "formatTypeR g (RArrayType len elt) =
     andThen (Inr ''['') (andThen (formatTypeR g len) (andThen (Inr '']'') (formatTypeR g elt)))"
| "formatTypeR g (REllipsis elt) = andThen (Inr ''...'') (formatTypeR g elt)"
| "formatTypeR g (RFuncType ft) = formatFuncTypeR g ft"
| "formatTypeR g (RMapType k v) =
     andThen (Inr ''map['') (andThen (formatTypeR g k) (andThen (Inr '']'') (formatTypeR g v)))"
| "formatTypeR g (RChanType dir v) =
     andThen
       (Inr ((if dir = 1 then ''<-chan'' else if dir = 2 then ''chan<-''
              else if dir = 3 then ''chan'' else []) @ '' ''))
       (formatTypeR g v)"
| "formatTypeR g (RBasicLit v) = Inr v"
| "formatTypeR g RStructType = Inr ''struct{}''"
| "formatTypeR g RInterfaceType = Inr ''interface{}''"
| "formatTypeR g (RUnaryExpr op x) = andThen (Inr (token_String op)) (formatTypeR g x)"
| "formatTypeR g (RCompositeLit t elts) = andThen (formatTypeR g t) (Inr ''{}'')"
| "formatTypeR g (RCallExpr f args) = andThen (formatTypeR g f) (Inr ''()'')"
| "formatTypeR g (RBinaryExpr x op y) =
     andThen (formatTypeR g x)
       (andThen (Inr ('' '' @ token_String op @ '' '')) (formatTypeR g y))"
| "formatTypeR g (RFuncLit None) = Inl NilPointerDereference"
| "formatTypeR g (RFuncLit (Some ft)) = formatFuncTypeR g ft"
| "formatTypeR g (RIndexExpr x i) =
     andThen (formatTypeR g x) (andThen (Inr ''['') (andThen (formatTypeR g i) (Inr '']'')))"
| "formatTypeR g (RIndexListExpr x is) =
     (case joinR (formatTypesR g is) of
        Inl e \<Rightarrow> Inl e
      | Inr typ \<Rightarrow>
          andThen (formatTypeR g x) (Inr (''['' @ strings_Join typ '', '' @ '']'')))"
| "formatTypeR g (RParenExpr x) = andThen (Inr ''('') (andThen (formatTypeR g x) (Inr '')''))"
| "formatTypeR g (RSliceExpr x lo hi mx slice3) =
     andThen (formatTypeR g x)
       (andThen (Inr ''['')
         (andThen (if lo \<noteq> RNil then formatTypeR g lo else Inr [])
           (andThen (Inr '':'')
             (andThen (if hi \<noteq> RNil then formatTypeR g hi else Inr [])
               (andThen (Inr (if slice3 then '':'' else []))
                 (andThen (if mx \<noteq> RNil then formatTypeR g mx else Inr [])
                   (Inr '']'')))))))"
| "formatTypeR g (RTypeAssertExpr x t) =
     andThen (formatTypeR g x) (andThen (Inr ''.('') (andThen (formatTypeR g t) (Inr '')'')))"
| "formatTypeR g (RBadExpr from to) = Inr (''unsupported type '' @ g (RBadExpr from to))"
| "formatTypeR g (RKeyValueExpr k v) = Inr (''unsupported type '' @ g (RKeyValueExpr k v))"
| "formatTypesR g [] = []"
| "formatTypesR g (e # es) = formatTypeR g e # formatTypesR g es"
| "formatFuncTypeR g (RFuncTypeOf tparams params results) =
     andThen (Inr ''func('')
       (andThen (formatFieldListR g params)
         (andThen (Inr '')'') (formatFuncResultsR g results)))"
| "formatFieldListR g None = Inl NilPointerDereference"
| "formatFieldListR g (Some list) = formatFieldsR g list"
| "formatFieldsR g [] = Inr []"
| "formatFieldsR g (None # fs) = Inl NilPointerDereference"
| "formatFieldsR g (Some (RField names t) # fs) =
     andThen (formatNamesR names)
       (andThen (formatTypeR g t)
         (andThen (Inr (if fs \<noteq> [] then '', '' else [])) (formatFieldsR g fs)))"
| "formatFuncResultsR g None = Inr []"
| "formatFuncResultsR g (Some list) =
     (case needParR list of
        Inl e \<Rightarrow> Inl e
      | Inr needPar \<Rightarrow>
          andThen (Inr ('' '' @ (if needPar then ''('' else [])))
            (andThen (formatFieldsR g list) (Inr (if needPar then '')'' else []))))"
  by pat_completeness auto
termination
  by lexicographic_order



section \<open>Notions used to state the properties\<close>

text \<open>
  The lines that the specification gives for one group of a var or const declaration.
  The shared type text is the rendered type and a space, or nothing when the group has
  no type. The line of the name at position \<open>i\<close> is the tag word, the name and the
  shared type text, followed by the initializer clause when the group has at least
  \<open>i + 1\<close> initializers. A group has one line for each of its names that the
  classifier accepts, in the order of the names.
\<close>

definition sharedType :: "goSyntax \<Rightarrow> expr \<Rightarrow> string" where
  "sharedType gs t = (if formatType gs t = [] then [] else formatType gs t @ '' '')"

definition valueLine :: "goSyntax \<Rightarrow> string \<Rightarrow> string \<Rightarrow> expr list \<Rightarrow> nat \<Rightarrow> string \<Rightarrow> string" where
  "valueLine gs key typ values i name =
     key @ '' '' @ name @ '' '' @ typ
       @ (if i + 1 \<le> length values then ''= '' @ formatType gs (values ! i) else [])"

fun groupLines :: "(rune \<Rightarrow> bool) \<Rightarrow> goSyntax \<Rightarrow> string \<Rightarrow> spec \<Rightarrow> string list" where
  "groupLines Upper gs key (ValueSpec names t values) =
     map (\<lambda>(i, name). valueLine gs key (sharedType gs t) values i name)
       (filter (\<lambda>(i, name). isUpper0 Upper name = Inr True) (enumerate 0 names))"
| "groupLines Upper gs key sp = []"

text \<open>Every name of the group keeps a character after one leading \<open>*\<close> is removed.\<close>

fun namesClassified :: "spec \<Rightarrow> bool" where
  "namesClassified (ValueSpec names t values) = list_all (\<lambda>name. stripStar name \<noteq> []) names"
| "namesClassified sp = True"

text \<open>
  A child that fallback resolution may select for a segment: a directory whose name is
  the segment, or begins with the segment followed by \<open>@\<close>. The cache root joined with
  the names of the children selected so far is the directory that resolution has
  reached.
\<close>

definition entryMatches :: "string \<Rightarrow> dirEntry \<Rightarrow> bool" where
  "entryMatches segment f =
     (IsDir f \<and> (EntryName f = segment \<or> HasPrefix (EntryName f) (segment @ ''@'')))"

definition joinAll :: "string \<Rightarrow> string list \<Rightarrow> string" where
  "joinAll root names = foldl (\<lambda>pa name. filepath_Join [pa, name]) root names"

section \<open>Properties of the visibility classifier\<close>

declare runes.simps [simp del]

lemma runes_Nil: "runes [] = []"
  by (simp add: runes.simps)

lemma runes_Cons: "s \<noteq> [] \<Longrightarrow> \<exists>r rs. runes s = r # rs"
  by (subst runes.simps) simp

lemma runes_eq_Nil: "(runes s = []) = (s = [])"
proof (cases "s = []")
  case True
  then show ?thesis by (simp add: runes_Nil)
next
  case False
  then obtain r rs where "runes s = r # rs" using runes_Cons by blast
  with False show ?thesis by simp
qed

lemma DecodeRune_star: "DecodeRuneInString (CHR ''*'' # t) = (42, 1)"
  by (simp add: DecodeRuneInString_def byteAt_def)

lemma runes_star: "runes (CHR ''*'' # t) = 42 # runes t"
  by (subst runes.simps) (simp add: DecodeRune_star)

lemma HasPrefix_star: "HasPrefix s ''*'' = (\<exists>t. s = CHR ''*'' # t)"
  by (cases s) (auto simp: HasPrefix_def)

lemma runeAt_hd: "rs \<noteq> [] \<Longrightarrow> runeAt rs 0 = Inr (hd rs)"
  by (cases rs) (simp_all add: runeAt_def)

lemma runeAt_Nil: "runeAt [] i = Inl (IndexOutOfRange i 0)"
  by (simp add: runeAt_def)

lemma isUpper0_star:
  "isUpper0 U (CHR ''*'' # t) =
     (if t = [] then Inl (IndexOutOfRange 1 1) else Inr (IsUpper U (hd (runes t))))"
proof (cases "t = []")
  case True
  then show ?thesis
    by (simp add: isUpper0_def HasPrefix_star runes_star runes_Nil runeAt_def)
next
  case False
  then obtain r rs where "runes t = r # rs" using runes_Cons by blast
  with False show ?thesis
    by (simp add: isUpper0_def HasPrefix_star runes_star runeAt_def)
qed

lemma isUpper0_plain:
  "\<not> HasPrefix s ''*'' \<Longrightarrow>
   isUpper0 U s = (if s = [] then Inl (IndexOutOfRange 0 0) else Inr (IsUpper U (hd (runes s))))"
  by (simp add: isUpper0_def runes_Nil runeAt_Nil runeAt_hd runes_eq_Nil)

lemma isUpper0_Inr_iff: "(\<exists>b. isUpper0 U s = Inr b) = (stripStar s \<noteq> [])"
proof (cases "HasPrefix s ''*''")
  case True
  then obtain t where t: "s = CHR ''*'' # t" by (auto simp: HasPrefix_star)
  then show ?thesis by (simp add: isUpper0_star stripStar_def HasPrefix_star)
next
  case False
  then show ?thesis by (simp add: isUpper0_plain stripStar_def)
qed

lemma runes_ascii: "of_char c < (128::nat) \<Longrightarrow> runes (c # cs) = of_char c # runes cs"
  by (subst runes.simps) (simp add: DecodeRuneInString_def byteAt_def)

lemma isUpper0_ascii:
  "of_char c < (128::nat) \<Longrightarrow> c \<noteq> CHR ''*'' \<Longrightarrow> isUpper0 U (c # cs) = Inr (IsUpper U (of_char c))"
  by (simp add: isUpper0_plain HasPrefix_star runes_ascii)


text \<open>
  Claim C4. For a name that is not empty and that, when it begins with the pointer
  marker \<open>*\<close>, has at least one character after it, the classifier returns, and returns
  true exactly when the first rune of the name without one leading \<open>*\<close> is an upper
  case letter for \<open>unicode.IsUpper\<close>.
\<close>

theorem isUpper0_first_character:
  assumes "s \<noteq> []" and "HasPrefix s ''*'' \<Longrightarrow> stripStar s \<noteq> []"
  shows "isUpper0 U s = Inr (IsUpper U (hd (runes (stripStar s))))"
proof (cases "HasPrefix s ''*''")
  case True
  then obtain t where t: "s = CHR ''*'' # t" by (auto simp: HasPrefix_star)
  with True assms(2) have "t \<noteq> []" by (simp add: stripStar_def)
  with t True show ?thesis by (simp add: isUpper0_star stripStar_def)
next
  case False
  with assms(1) show ?thesis by (simp add: isUpper0_plain stripStar_def)
qed

theorem isUpper0_first_character_witness:
  "''*Bar'' \<noteq> [] \<and> stripStar ''*Bar'' \<noteq> [] \<and>
   isUpper0 (\<lambda>r. False) ''*Bar'' = Inr (IsUpper (\<lambda>r. False) (hd (runes (stripStar ''*Bar''))))"
  using isUpper0_first_character [of "''*Bar''" "\<lambda>r. False"]
  by (simp add: stripStar_def HasPrefix_def)

text \<open>
  Claim C10. The classifier indexes the runes of the name without a bounds check: it
  returns a boolean exactly on the names that keep at least one character after one
  leading \<open>*\<close> is removed. On the empty string the index 0, and on the string \<open>*\<close> the
  index 1, is out of range, and the function panics.
\<close>

theorem isUpper0_returns_iff:
  "(\<exists>b. isUpper0 U s = Inr b) = (stripStar s \<noteq> [])
   \<and> isUpper0 U [] = Inl (IndexOutOfRange 0 0)
   \<and> isUpper0 U ''*'' = Inl (IndexOutOfRange 1 1)"
proof -
  have "(\<exists>b. isUpper0 U s = Inr b) = (stripStar s \<noteq> [])"
    by (rule isUpper0_Inr_iff)
  moreover have "isUpper0 U [] = Inl (IndexOutOfRange 0 0)"
    by (simp add: isUpper0_plain HasPrefix_def)
  moreover have "isUpper0 U ''*'' = Inl (IndexOutOfRange 1 1)"
    by (simp add: isUpper0_star)
  ultimately show ?thesis by simp
qed

section \<open>Properties of the renderer\<close>

text \<open>
  Claim C6. The result clause of an absent (nil) result list is empty. For a present
  list it is a space followed by the rendered fields, which stand in parentheses exactly
  when the list has more than one field or its only field has a name. One unnamed
  \<open>error\<close> gives \<open>" error"\<close>, and \<open>(n int, err error)\<close> gives \<open>" (n int, err error)"\<close>.
\<close>

theorem formatFuncResults_clause:
  "formatFuncResults gs None = []
   \<and> formatFuncResults gs (Some flds) =
       '' '' @ (if 1 < length flds \<or> (\<exists>f. flds = [f] \<and> Names f \<noteq> [])
               then ''('' @ formatFields gs flds @ '')''
               else formatFields gs flds)
   \<and> formatFuncResults gs (Some [Field [] (Ident ''error'')]) = '' error''
   \<and> formatFuncResults gs (Some [Field [''n''] (Ident ''int''), Field [''err''] (Ident ''error'')])
       = '' (n int, err error)''"
proof -
  have par: "(1 < length flds \<or> (length flds = 1 \<and> 0 < length (Names (flds ! 0))))
             = (1 < length flds \<or> (\<exists>f. flds = [f] \<and> Names f \<noteq> []))"
    by (cases flds) auto
  have "formatFuncResults gs (Some flds) =
       '' '' @ (if 1 < length flds \<or> (\<exists>f. flds = [f] \<and> Names f \<noteq> [])
               then ''('' @ formatFields gs flds @ '')''
               else formatFields gs flds)"
    unfolding formatFuncResults.simps par by auto
  then show ?thesis by simp
qed

text \<open>
  Claim C7. An array type renders as \<open>[\<close>, the rendered length (nothing when the length
  is absent), \<open>]\<close> and the rendered element, so an array of 4 \<open>int\<close> is \<open>[4]int\<close>. A slice
  expression renders as its base followed by \<open>[low:high]\<close>, an absent bound rendering as
  nothing, with a second colon before the maximum exactly when the three-index flag is
  set: \<open>x[:3]\<close> with a high bound only, \<open>x[1:2:3]\<close> with three indices.
\<close>

theorem formatType_array_slice:
  "formatType gs Nil = []
   \<and> formatType gs (ArrayType len elt) = ''['' @ formatType gs len @ '']'' @ formatType gs elt
   \<and> formatType gs (ArrayType (BasicLit ''4'') (Ident ''int'')) = ''[4]int''
   \<and> formatType gs (SliceExpr x lo hi mx slice3) =
       formatType gs x @ ''['' @ formatType gs lo @ '':'' @ formatType gs hi
         @ (if slice3 then '':'' else []) @ formatType gs mx @ '']''
   \<and> formatType gs (SliceExpr (Ident ''x'') Nil (BasicLit ''3'') Nil False) = ''x[:3]''
   \<and> formatType gs (SliceExpr (Ident ''x'') (BasicLit ''1'') (BasicLit ''2'') (BasicLit ''3'') True)
       = ''x[1:2:3]''"
  by simp

section \<open>Properties of the renderer on trees with nil pointers\<close>










section \<open>Properties of the declaration formatter\<close>

lemma valueNames_lines:
  "list_all (\<lambda>name. stripStar name \<noteq> []) names \<Longrightarrow>
   valueNames U gs key typ values i names res =
     Inr (res @ map (\<lambda>(j, name). valueLine gs key typ values j name)
                 (filter (\<lambda>(j, name). isUpper0 U name = Inr True) (enumerate i names)))"
proof (induction names arbitrary: i res)
  case Nil
  then show ?case by simp
next
  case (Cons name names)
  from Cons.prems have "stripStar name \<noteq> []" by simp
  then obtain b where b: "isUpper0 U name = Inr b"
    using isUpper0_Inr_iff [of U name] by blast
  from Cons.prems have rest: "list_all (\<lambda>name. stripStar name \<noteq> []) names" by simp
  show ?case
  proof (cases b)
    case True
    with b Cons.IH [OF rest] show ?thesis by (simp add: valueLine_def)
  next
    case False
    with b Cons.IH [OF rest] show ?thesis by simp
  qed
qed

lemma valueSpecs_lines:
  "list_all namesClassified specs \<Longrightarrow>
   valueSpecs U gs key specs res = Inr (res @ concat (map (groupLines U gs key) specs))"
proof (induction specs arbitrary: res)
  case Nil
  then show ?case by simp
next
  case (Cons sp specs)
  from Cons.prems have rest: "list_all namesClassified specs" by simp
  show ?case
  proof (cases sp)
    case ImportSpec
    with Cons.IH [OF rest] show ?thesis by simp
  next
    case (ValueSpec names t vals)
    with Cons.prems have "list_all (\<lambda>name. stripStar name \<noteq> []) names" by simp
    with ValueSpec Cons.IH [OF rest] show ?thesis
      by (simp add: valueNames_lines sharedType_def Let_def)
  next
    case (TypeSpec name t)
    with Cons.IH [OF rest] show ?thesis by simp
  qed
qed

text \<open>
  Claim C8. In a var or const declaration whose names can all be classified, every
  group contributes one line for each eligible name: the tag word, the name and the
  shared type text, and then the clause \<open>= \<close> with the rendered initializer at the
  position of the name exactly when the group has an initializer at that position; a
  name beyond the initializers has no such clause.
\<close>

theorem formatGenDecl_value_lines:
  assumes "tok = tok_VAR \<or> tok = tok_CONST" and "list_all namesClassified specs"
  shows "formatGenDecl U gs tok specs =
           Inr (strings_Join
                  (concat (map (groupLines U gs (if tok = tok_CONST then ''const'' else ''var'')) specs))
                  newline)"
  using assms by (auto simp: formatGenDecl_def valueSpecs_lines)

theorem formatGenDecl_value_lines_witness:
  "(tok_VAR = tok_VAR \<or> tok_VAR = tok_CONST)
   \<and> list_all namesClassified [ValueSpec [''A'', ''b'', ''C''] (Ident ''int'') [BasicLit ''1'']]
   \<and> formatGenDecl (\<lambda>r. False) (\<lambda>n. []) tok_VAR
        [ValueSpec [''A'', ''b'', ''C''] (Ident ''int'') [BasicLit ''1'']]
      = Inr (''var A int = 1'' @ newline @ ''var C int '')"
  using formatGenDecl_value_lines
    [of tok_VAR "[ValueSpec [''A'', ''b'', ''C''] (Ident ''int'') [BasicLit ''1'']]" "\<lambda>r. False" "\<lambda>n. []"]
  by (simp add: stripStar_def HasPrefix_def enumerate_eq_zip upt_rec valueLine_def sharedType_def
      isUpper0_ascii IsUpper_def MaxLatin1_def)

section \<open>Properties of the file exporter\<close>

lemma exported_one_field:
  "Recv d = Some [f] \<Longrightarrow>
   (exported U gs d = Inr True) =
     (isUpper0 U (formatType gs (Type f)) = Inr True \<and> isUpper0 U (Name d) = Inr True)"
  by (auto simp: exported_def split: sum.splits bool.splits)


lemma collectDecls_res:
  "collectDecls U gs decls res =
     (case collectDecls U gs decls [] of Inl e \<Rightarrow> Inl e | Inr r \<Rightarrow> Inr (res @ r))"
proof (induction decls arbitrary: res)
  case Nil
  show ?case by simp
next
  case (Cons d decls)
  note IH = Cons.IH
  show ?case
  proof (cases d)
    case BadDecl
    with IH [of res] show ?thesis by simp
  next
    case (GenDecl tok specs)
    show ?thesis
    proof (cases "formatGenDecl U gs tok specs")
      case (Inl e)
      with GenDecl show ?thesis by simp
    next
      case (Inr s)
      with GenDecl IH [of res] IH [of "res @ [s]"] IH [of "[s]"] show ?thesis
        by (simp split: sum.splits)
    qed
  next
    case (FuncDecl fd)
    show ?thesis
    proof (cases "exported U gs fd")
      case (Inl e)
      with FuncDecl show ?thesis by simp
    next
      case (Inr ex)
      with FuncDecl IH [of res] IH [of "res @ [formatFuncDecl gs fd]"] IH [of "[formatFuncDecl gs fd]"]
      show ?thesis by (simp split: sum.splits)
    qed
  qed
qed

lemma collectDecls_append:
  "collectDecls U gs (xs @ ys) res =
     (case collectDecls U gs xs res of Inl e \<Rightarrow> Inl e | Inr r \<Rightarrow> collectDecls U gs ys r)"
proof (induction xs arbitrary: res)
  case Nil
  show ?case by simp
next
  case (Cons d xs)
  show ?case
  proof (cases d)
    case BadDecl
    with Cons.IH show ?thesis by simp
  next
    case (GenDecl tok specs)
    with Cons.IH show ?thesis by (simp split: sum.splits)
  next
    case (FuncDecl fd)
    with Cons.IH show ?thesis by (simp split: sum.splits)
  qed
qed

lemma printLines_append: "printLines (xs @ ys) = printLines xs @ printLines ys"
  by (induction xs) simp_all

lemma collectDecls_around:
  assumes "collectDecls U gs pre [] = Inr a" and "collectDecls U gs post [] = Inr b"
    and "exported U gs d = Inr ex"
  shows "collectDecls U gs (pre @ FuncDecl d # post) []
           = Inr (a @ (if ex then [formatFuncDecl gs d] else []) @ b)"
proof -
  have "collectDecls U gs (pre @ FuncDecl d # post) [] = collectDecls U gs (FuncDecl d # post) a"
    using assms(1) by (simp add: collectDecls_append)
  also have "\<dots> = collectDecls U gs post (a @ (if ex then [formatFuncDecl gs d] else []))"
    using assms(3) by simp
  also have "\<dots> = Inr ((a @ (if ex then [formatFuncDecl gs d] else [])) @ b)"
    using assms(2) by (subst collectDecls_res) simp
  finally show ?thesis by simp
qed

text \<open>
  Claim C1, as the code has it. Take a method whose receiver is a single field with more
  than one name, between declarations that the file exporter collects into the lines
  \<open>a\<close> before it and \<open>b\<close> after it. \<open>formatFuncDecl\<close> renders the method as the diagnostic
  line \<open>strange receiver field for\<close>, its name and the debug form of the field. The
  method passes the gate \<open>exported\<close> exactly when the classifier accepts the rendered
  receiver type and the method name. When it passes, the file prints the header, the
  lines \<open>a\<close>, the diagnostic line in place of the rendering, the lines \<open>b\<close> and the
  separator. When the gate returns false, the method contributes no line: the file
  prints the header, the lines \<open>a\<close> and \<open>b\<close> and the separator, or nothing when there are
  no such lines. In both cases the run is not aborted.
\<close>

theorem strange_receiver_diagnostic:
  "Recv d = Some [f] \<and> 1 < length (Names f)
     \<and> collectDecls U gs pre [] = Inr a \<and> collectDecls U gs post [] = Inr b \<longrightarrow>
   formatFuncDecl gs d = ''strange receiver field for '' @ Name d @ '': '' @ gs (NField f)
   \<and> (exported U gs d = Inr True)
       = (isUpper0 U (formatType gs (Type f)) = Inr True \<and> isUpper0 U (Name d) = Inr True)
   \<and> (exported U gs d = Inr True \<longrightarrow>
        printGoFileExport U gs path \<lparr>PkgName = p, Decls = pre @ FuncDecl d # post\<rparr>
          = Inr (printFileName path @ printLines a
                   @ ''strange receiver field for '' @ Name d @ '': '' @ gs (NField f) @ newline
                   @ printLines b @ newline))
   \<and> (exported U gs d = Inr False \<longrightarrow>
        printGoFileExport U gs path \<lparr>PkgName = p, Decls = pre @ FuncDecl d # post\<rparr>
          = Inr (if a @ b = [] then []
                 else printFileName path @ printLines a @ printLines b @ newline))"
proof (intro impI)
  assume h: "Recv d = Some [f] \<and> 1 < length (Names f)
     \<and> collectDecls U gs pre [] = Inr a \<and> collectDecls U gs post [] = Inr b"
  have diag: "formatFuncDecl gs d
      = ''strange receiver field for '' @ Name d @ '': '' @ gs (NField f)"
    using h by (auto simp: formatFuncDecl_def formatRecv_def)
  have gate: "(exported U gs d = Inr True)
       = (isUpper0 U (formatType gs (Type f)) = Inr True \<and> isUpper0 U (Name d) = Inr True)"
    using h by (simp add: exported_one_field)
  have passed: "exported U gs d = Inr True \<longrightarrow>
        printGoFileExport U gs path \<lparr>PkgName = p, Decls = pre @ FuncDecl d # post\<rparr>
          = Inr (printFileName path @ printLines a
                   @ ''strange receiver field for '' @ Name d @ '': '' @ gs (NField f) @ newline
                   @ printLines b @ newline)"
  proof
    assume "exported U gs d = Inr True"
    with h have "collectDecls U gs (pre @ FuncDecl d # post) []
        = Inr (a @ (if True then [formatFuncDecl gs d] else []) @ b)"
      by (intro collectDecls_around) simp_all
    then show "printGoFileExport U gs path \<lparr>PkgName = p, Decls = pre @ FuncDecl d # post\<rparr>
          = Inr (printFileName path @ printLines a
                   @ ''strange receiver field for '' @ Name d @ '': '' @ gs (NField f) @ newline
                   @ printLines b @ newline)"
      by (simp add: printGoFileExport_def printLines_append diag)
  qed
  have dropped: "exported U gs d = Inr False \<longrightarrow>
        printGoFileExport U gs path \<lparr>PkgName = p, Decls = pre @ FuncDecl d # post\<rparr>
          = Inr (if a @ b = [] then []
                 else printFileName path @ printLines a @ printLines b @ newline)"
  proof
    assume "exported U gs d = Inr False"
    with h have "collectDecls U gs (pre @ FuncDecl d # post) []
        = Inr (a @ (if False then [formatFuncDecl gs d] else []) @ b)"
      by (intro collectDecls_around) simp_all
    then show "printGoFileExport U gs path \<lparr>PkgName = p, Decls = pre @ FuncDecl d # post\<rparr>
          = Inr (if a @ b = [] then []
                 else printFileName path @ printLines a @ printLines b @ newline)"
      by (simp add: printGoFileExport_def printLines_append)
  qed
  from diag gate passed dropped
  show "formatFuncDecl gs d = ''strange receiver field for '' @ Name d @ '': '' @ gs (NField f)
   \<and> (exported U gs d = Inr True)
       = (isUpper0 U (formatType gs (Type f)) = Inr True \<and> isUpper0 U (Name d) = Inr True)
   \<and> (exported U gs d = Inr True \<longrightarrow>
        printGoFileExport U gs path \<lparr>PkgName = p, Decls = pre @ FuncDecl d # post\<rparr>
          = Inr (printFileName path @ printLines a
                   @ ''strange receiver field for '' @ Name d @ '': '' @ gs (NField f) @ newline
                   @ printLines b @ newline))
   \<and> (exported U gs d = Inr False \<longrightarrow>
        printGoFileExport U gs path \<lparr>PkgName = p, Decls = pre @ FuncDecl d # post\<rparr>
          = Inr (if a @ b = [] then []
                 else printFileName path @ printLines a @ printLines b @ newline))"
    by blast
qed

theorem strange_receiver_diagnostic_witness:
  "exported (\<lambda>r. False) (\<lambda>n. ''<v>'')
     \<lparr>Recv = Some [Field [''a'', ''b''] (Ident ''T'')], Name = ''Foo'', TypeParams = None,
      Params = [], Results = None\<rparr> = Inr True
   \<and> printGoFileExport (\<lambda>r. False) (\<lambda>n. ''<v>'') ''/p/x.go''
       \<lparr>PkgName = ''p'',
        Decls = [FuncDecl \<lparr>Recv = None, Name = ''Baz'', TypeParams = None, Params = [],
                            Results = None\<rparr>,
                 FuncDecl \<lparr>Recv = Some [Field [''a'', ''b''] (Ident ''T'')], Name = ''Foo'',
                            TypeParams = None, Params = [], Results = None\<rparr>,
                 FuncDecl \<lparr>Recv = None, Name = ''Bar'', TypeParams = None, Params = [],
                            Results = None\<rparr>]\<rparr>
     = Inr (''// x.go:'' @ newline @ ''func Baz()'' @ newline
              @ ''strange receiver field for Foo: <v>'' @ newline
              @ ''func Bar()'' @ newline @ newline)
   \<and> exported (\<lambda>r. False) (\<lambda>n. ''<v>'')
       \<lparr>Recv = Some [Field [''a'', ''b''] (Ident ''T'')], Name = ''foo'', TypeParams = None,
        Params = [], Results = None\<rparr> = Inr False
   \<and> printGoFileExport (\<lambda>r. False) (\<lambda>n. ''<v>'') ''/p/x.go''
       \<lparr>PkgName = ''p'',
        Decls = [FuncDecl \<lparr>Recv = None, Name = ''Baz'', TypeParams = None, Params = [],
                            Results = None\<rparr>,
                 FuncDecl \<lparr>Recv = Some [Field [''a'', ''b''] (Ident ''T'')], Name = ''foo'',
                            TypeParams = None, Params = [], Results = None\<rparr>,
                 FuncDecl \<lparr>Recv = None, Name = ''Bar'', TypeParams = None, Params = [],
                            Results = None\<rparr>]\<rparr>
     = Inr (''// x.go:'' @ newline @ ''func Baz()'' @ newline @ ''func Bar()'' @ newline @ newline)"
  using
    strange_receiver_diagnostic
      [where d = "\<lparr>Recv = Some [Field [''a'', ''b''] (Ident ''T'')], Name = ''Foo'',
                    TypeParams = None, Params = [], Results = None\<rparr>"
         and f = "Field [''a'', ''b''] (Ident ''T'')" and gs = "\<lambda>n. ''<v>''" and U = "\<lambda>r. False"
         and pre = "[FuncDecl \<lparr>Recv = None, Name = ''Baz'', TypeParams = None, Params = [],
                                 Results = None\<rparr>]"
         and a = "[''func Baz()'']"
         and post = "[FuncDecl \<lparr>Recv = None, Name = ''Bar'', TypeParams = None, Params = [],
                                  Results = None\<rparr>]"
         and b = "[''func Bar()'']" and path = "''/p/x.go''" and p = "''p''"]
    strange_receiver_diagnostic
      [where d = "\<lparr>Recv = Some [Field [''a'', ''b''] (Ident ''T'')], Name = ''foo'',
                    TypeParams = None, Params = [], Results = None\<rparr>"
         and f = "Field [''a'', ''b''] (Ident ''T'')" and gs = "\<lambda>n. ''<v>''" and U = "\<lambda>r. False"
         and pre = "[FuncDecl \<lparr>Recv = None, Name = ''Baz'', TypeParams = None, Params = [],
                                 Results = None\<rparr>]"
         and a = "[''func Baz()'']"
         and post = "[FuncDecl \<lparr>Recv = None, Name = ''Bar'', TypeParams = None, Params = [],
                                  Results = None\<rparr>]"
         and b = "[''func Bar()'']" and path = "''/p/x.go''" and p = "''p''"]
  by (simp add: exported_def isUpper0_ascii IsUpper_def MaxLatin1_def formatFuncDecl_def
      formatRecv_def printFileName_def filepath_Base_def)

text \<open>
  Against claim C1 as stated: a method with an empty receiver list aborts the run in
  \<open>exported\<close>, so that neither a diagnostic line nor the function after it is printed;
  and an unexported method whose receiver field has two names is left out without a
  diagnostic line.
\<close>

theorem strange_receiver_counterexample:
  "printGoFileExport (\<lambda>r. False) (\<lambda>n. ''<v>'') ''/p/x.go''
     \<lparr>PkgName = ''p'',
      Decls = [FuncDecl \<lparr>Recv = Some [], Name = ''Foo'', TypeParams = None, Params = [],
                          Results = None\<rparr>,
               FuncDecl \<lparr>Recv = None, Name = ''Bar'', TypeParams = None, Params = [],
                          Results = None\<rparr>]\<rparr>
     = Inl (StrangeReceiver ''strange receiver for Foo: <v>'')
   \<and> printGoFileExport (\<lambda>r. False) (\<lambda>n. ''<v>'') ''/p/x.go''
       \<lparr>PkgName = ''p'',
        Decls = [FuncDecl \<lparr>Recv = Some [Field [''a'', ''b''] (Ident ''T'')], Name = ''foo'',
                            TypeParams = None, Params = [], Results = None\<rparr>]\<rparr>
     = Inr []"
  by (simp add: printGoFileExport_def exported_def isUpper0_ascii IsUpper_def MaxLatin1_def)

text \<open>
  Claim C2, at a file whose only declaration is the exported method \<open>func (T) Foo()\<close>,
  with an unnamed receiver. \<open>formatFuncDecl\<close> returns the empty text for it, the loop
  appends that text without the test for emptiness that it makes for a general
  declaration, and the file prints its header, an empty line and the separator.
\<close>

theorem unnamed_receiver_prints_empty_line:
  "formatFuncDecl gs
     \<lparr>Recv = Some [Field [] (Ident ''T'')], Name = ''Foo'', TypeParams = None, Params = [],
      Results = None\<rparr> = []
   \<and> collectDecls U gs
       [FuncDecl \<lparr>Recv = Some [Field [] (Ident ''T'')], Name = ''Foo'', TypeParams = None,
                   Params = [], Results = None\<rparr>] [] = Inr [[]]
   \<and> printGoFileExport U gs ''/p/x.go''
       \<lparr>PkgName = ''p'',
        Decls = [FuncDecl \<lparr>Recv = Some [Field [] (Ident ''T'')], Name = ''Foo'', TypeParams = None,
                            Params = [], Results = None\<rparr>]\<rparr>
     = Inr (''// x.go:'' @ newline @ newline @ newline)"
  by (simp add: printGoFileExport_def exported_def isUpper0_ascii IsUpper_def MaxLatin1_def
      formatFuncDecl_def formatRecv_def printFileName_def filepath_Base_def)

section \<open>Properties of the package path resolver\<close>

lemma firstMatch_find: "firstMatch name list = find (entryMatches name) list"
  by (induction list) (auto simp: entryMatches_def)

lemma joinAll_Cons: "joinAll root (name # names) = joinAll (filepath_Join [root, name]) names"
  by (simp add: joinAll_def)

lemma searchLoop_descend:
  assumes "length es \<le> length segs"
    and "\<forall>i<length es. \<exists>list.
           fs (joinAll root (map EntryName (take i es))) = Some list
           \<and> find (entryMatches (segs ! i)) list = Some (es ! i)"
  shows "searchLoop fs root segs =
           searchLoop fs (joinAll root (map EntryName es)) (drop (length es) segs)"
  using assms
proof (induction es arbitrary: root segs)
  case Nil
  then show ?case by (simp add: joinAll_def)
next
  case (Cons e es)
  from Cons.prems(1) obtain seg segs' where segs: "segs = seg # segs'"
    by (cases segs) auto
  from Cons.prems(2) have "\<exists>list. fs (joinAll root (map EntryName (take 0 (e # es)))) = Some list
      \<and> find (entryMatches (segs ! 0)) list = Some ((e # es) ! 0)"
    by blast
  then obtain list where first: "fs root = Some list" "find (entryMatches seg) list = Some e"
    using segs by (auto simp: joinAll_def)
  have len: "length es \<le> length segs'"
    using Cons.prems(1) segs by simp
  have rest: "\<forall>i<length es. \<exists>list.
           fs (joinAll (filepath_Join [root, EntryName e]) (map EntryName (take i es))) = Some list
           \<and> find (entryMatches (segs' ! i)) list = Some (es ! i)"
  proof (intro allI impI)
    fix i
    assume "i < length es"
    then have "Suc i < length (e # es)" by simp
    with Cons.prems(2) have "\<exists>list.
           fs (joinAll root (map EntryName (take (Suc i) (e # es)))) = Some list
           \<and> find (entryMatches (segs ! Suc i)) list = Some ((e # es) ! Suc i)"
      by blast
    then show "\<exists>list.
           fs (joinAll (filepath_Join [root, EntryName e]) (map EntryName (take i es))) = Some list
           \<and> find (entryMatches (segs' ! i)) list = Some (es ! i)"
      using segs by (simp add: joinAll_Cons)
  qed
  have "searchLoop fs root segs = searchLoop fs (filepath_Join [root, EntryName e]) segs'"
    using segs first by (simp add: firstMatch_find)
  also have "\<dots> = searchLoop fs (joinAll (filepath_Join [root, EntryName e]) (map EntryName es))
                     (drop (length es) segs')"
    by (rule Cons.IH [OF len rest])
  finally show ?case using segs by (simp add: joinAll_Cons)
qed

text \<open>
  Claim C5. Fallback resolution splits the import path at the path separator and
  starts at the module cache root. Let \<open>es\<close> be the children selected for the first
  segments: the child for a segment is the first entry, of the directory reached through
  the children before it, that is a directory named as the segment or as the segment
  followed by \<open>@\<close> and more. When every segment has its child, the result is the cache
  root joined with the names of all of them. When the next segment has no such child in
  the directory reached, the result is the empty string, whatever was matched before.
\<close>

theorem searchPackagePath_segments:
  assumes "segs = strings_Split importPath os_PathSeparator"
    and "length es \<le> length segs"
    and "\<forall>i<length es. \<exists>list.
           fs (joinAll (goModCache ev) (map EntryName (take i es))) = Some list
           \<and> find (entryMatches (segs ! i)) list = Some (es ! i)"
  shows "(length es = length segs \<longrightarrow>
            searchPackagePathFromGoModCache ev fs importPath
              = Inr (joinAll (goModCache ev) (map EntryName es)))
       \<and> (length es < length segs
            \<and> (\<exists>list. fs (joinAll (goModCache ev) (map EntryName es)) = Some list
                  \<and> find (entryMatches (segs ! length es)) list = None) \<longrightarrow>
            searchPackagePathFromGoModCache ev fs importPath = Inr [])"
proof -
  let ?reached = "joinAll (goModCache ev) (map EntryName es)"
  have descend: "searchPackagePathFromGoModCache ev fs importPath
      = searchLoop fs ?reached (drop (length es) segs)"
    unfolding searchPackagePathFromGoModCache_def assms(1) [symmetric]
    by (rule searchLoop_descend [OF assms(2) assms(3)])
  have all: "length es = length segs \<longrightarrow>
      searchPackagePathFromGoModCache ev fs importPath = Inr ?reached"
    using descend by simp
  have none: "length es < length segs
            \<and> (\<exists>list. fs ?reached = Some list
                  \<and> find (entryMatches (segs ! length es)) list = None) \<longrightarrow>
            searchPackagePathFromGoModCache ev fs importPath = Inr []"
  proof
    assume h: "length es < length segs
            \<and> (\<exists>list. fs ?reached = Some list
                  \<and> find (entryMatches (segs ! length es)) list = None)"
    then have "drop (length es) segs = segs ! length es # drop (Suc (length es)) segs"
      by (simp add: Cons_nth_drop_Suc)
    with h descend show "searchPackagePathFromGoModCache ev fs importPath = Inr []"
      by (auto simp: firstMatch_find)
  qed
  from all none show ?thesis by simp
qed

lemma Join_cache_a: "filepath_Join [''/cache'', ''a''] = ''/cache/a''"
  by (simp add: filepath_Join_def filepath_Clean_def cleanStep_def os_PathSeparator_def)

lemma Join_cache_a_b: "filepath_Join [''/cache/a'', ''b@1.2.3''] = ''/cache/a/b@1.2.3''"
  by (simp add: filepath_Join_def filepath_Clean_def cleanStep_def os_PathSeparator_def)

lemma Split_a_b: "[''a'', ''b''] = strings_Split ''a/b'' os_PathSeparator"
  by (simp add: os_PathSeparator_def)

theorem searchPackagePath_segments_witness:
  "searchPackagePathFromGoModCache \<lparr>GOMODCACHE = ''/cache'', GOPATH = []\<rparr>
     (\<lambda>pa. if pa = ''/cache'' then Some [DirEntry ''a'' True]
           else if pa = ''/cache/a'' then Some [DirEntry ''b.go'' False, DirEntry ''b@1.2.3'' True]
           else None)
     ''a/b'' = Inr ''/cache/a/b@1.2.3''
   \<and> searchPackagePathFromGoModCache \<lparr>GOMODCACHE = ''/cache'', GOPATH = []\<rparr>
       (\<lambda>pa. if pa = ''/cache'' then Some [DirEntry ''a'' True]
             else if pa = ''/cache/a'' then Some [DirEntry ''c'' True]
             else None)
       ''a/b'' = Inr []"
proof -
  let ?ev = "\<lparr>GOMODCACHE = ''/cache'', GOPATH = []\<rparr>"
  let ?fs1 = "\<lambda>pa. if pa = ''/cache'' then Some [DirEntry ''a'' True]
           else if pa = ''/cache/a'' then Some [DirEntry ''b.go'' False, DirEntry ''b@1.2.3'' True]
           else None"
  let ?fs2 = "\<lambda>pa. if pa = ''/cache'' then Some [DirEntry ''a'' True]
             else if pa = ''/cache/a'' then Some [DirEntry ''c'' True]
             else None"
  let ?es1 = "[DirEntry ''a'' True, DirEntry ''b@1.2.3'' True]"
  let ?es2 = "[DirEntry ''a'' True]"
  have root: "goModCache ?ev = ''/cache''"
    by (simp add: goModCache_def)
  have h1: "\<forall>i<length ?es1. \<exists>list.
           ?fs1 (joinAll (goModCache ?ev) (map EntryName (take i ?es1))) = Some list
           \<and> find (entryMatches ([''a'', ''b''] ! i)) list = Some (?es1 ! i)"
    by (simp add: root less_Suc_eq joinAll_def Join_cache_a entryMatches_def HasPrefix_def
        all_conj_distrib)
  have h2: "\<forall>i<length ?es2. \<exists>list.
           ?fs2 (joinAll (goModCache ?ev) (map EntryName (take i ?es2))) = Some list
           \<and> find (entryMatches ([''a'', ''b''] ! i)) list = Some (?es2 ! i)"
    by (simp add: root joinAll_def entryMatches_def)
  have r1: "searchPackagePathFromGoModCache ?ev ?fs1 ''a/b''
      = Inr (joinAll (goModCache ?ev) (map EntryName ?es1))"
    using searchPackagePath_segments [OF Split_a_b _ h1] by simp
  have r2: "searchPackagePathFromGoModCache ?ev ?fs2 ''a/b'' = Inr []"
    using searchPackagePath_segments [OF Split_a_b _ h2]
    by (simp add: root joinAll_def Join_cache_a entryMatches_def HasPrefix_def)
  from r1 r2 show ?thesis
    by (simp add: root joinAll_def Join_cache_a Join_cache_a_b)
qed

end
